theory Spec2Isabelle
  imports Main
begin

section \<open>Values, instants and errors\<close>

text \<open>
  The constructor of \<open>IntervalNode\<close> receives arbitrary Python objects. The values that
  matter for its checks are modelled by \<open>pyval\<close>: \<open>None\<close>, integers, strings,
  \<open>decimal.Decimal\<close> objects and naive \<open>datetime\<close> objects. A \<open>datetime\<close> is the number
  of microseconds since \<open>datetime.min\<close>; the upper end \<open>datetime.max\<close> plays no role in the
  tree code and is not modelled. A \<open>Decimal\<close> is either the quiet NaN (\<open>None\<close>) or has an
  integer value.
\<close>

type_synonym datetime = nat

datatype pyval = PyNone | PyInt int | PyStr string | PyDecimal "int option" | PyDatetime datetime

datatype error = ValueError | TypeError | AttributeError | InvalidOperation

definition datetime_min :: datetime where
  "datetime_min = 0"

definition timedelta_days :: "nat \<Rightarrow> nat" where
  "timedelta_days d = d * 86400000000"

text \<open>An ordering comparison of two \<open>Decimal\<close> values raises \<open>decimal.InvalidOperation\<close>
  when one of them is NaN.\<close>

fun decimal_ge :: "int option \<Rightarrow> int option \<Rightarrow> error + bool" where
  "decimal_ge (Some a) (Some b) = Inr (b \<le> a)"
| "decimal_ge _ _ = Inl InvalidOperation"

text \<open>Python's \<open>a >= b\<close>: defined between two values of the same ordered type and between
  \<open>Decimal\<close> and \<open>int\<close>, a \<open>TypeError\<close> otherwise.\<close>

fun py_ge :: "pyval \<Rightarrow> pyval \<Rightarrow> error + bool" where
  "py_ge (PyDatetime a) (PyDatetime b) = Inr (b \<le> a)"
| "py_ge (PyInt a) (PyInt b) = Inr (b \<le> a)"
| "py_ge (PyStr a) (PyStr b) =
     Inr (\<not> lexordp (\<lambda>c d. (of_char c :: nat) < of_char d) a b)"
| "py_ge (PyDecimal a) (PyDecimal b) = decimal_ge a b"
| "py_ge (PyDecimal a) (PyInt b) = decimal_ge a (Some b)"
| "py_ge (PyInt a) (PyDecimal b) = decimal_ge (Some a) b"
| "py_ge _ _ = Inl TypeError"

fun isinstance_datetime :: "pyval \<Rightarrow> bool" where
  "isinstance_datetime (PyDatetime _) = True"
| "isinstance_datetime _ = False"

section \<open>Nodes and the object store\<close>

datatype NodeColor = RED | BLACK

type_synonym ref = nat

text \<open>An \<open>IntervalNode\<close> object. The links are Python references that may be \<open>None\<close>.\<close>

record IntervalNode =
  start :: datetime
  endt :: datetime
  max_end :: datetime
  color :: NodeColor
  left :: "ref option"
  right :: "ref option"
  parent :: "ref option"
  data :: pyval

text \<open>\<open>IntervalNode.__init__\<close>: the comparison runs first, the type check second.\<close>

definition IntervalNode_init :: "pyval \<Rightarrow> pyval \<Rightarrow> pyval \<Rightarrow> error + IntervalNode" where
  "IntervalNode_init s e d =
     (case py_ge s e of
        Inl err \<Rightarrow> Inl err
      | Inr ge \<Rightarrow>
          if ge then Inl ValueError
          else (case (s, e) of
                  (PyDatetime a, PyDatetime b) \<Rightarrow>
                    Inr \<lparr>start = a, endt = b, max_end = b, color = RED,
                         left = None, right = None, parent = None, data = d\<rparr>
                | _ \<Rightarrow> Inl TypeError))"

text \<open>
  The store maps references to objects; \<open>next_ref\<close> is the next unused reference. The two
  attributes of the \<open>RedBlackIntervalTree\<close> object, \<open>NIL_LEAF\<close> and \<open>root\<close>, are kept in the
  same record.
\<close>

record state =
  heap :: "ref \<Rightarrow> IntervalNode"
  next_ref :: ref
  NIL_LEAF :: ref
  root :: ref

definition upd :: "ref \<Rightarrow> (IntervalNode \<Rightarrow> IntervalNode) \<Rightarrow> state \<Rightarrow> state" where
  "upd a f st = st\<lparr>heap := (heap st)(a := f (heap st a))\<rparr>"

definition set_color :: "ref \<Rightarrow> NodeColor \<Rightarrow> state \<Rightarrow> state" where
  "set_color a c st = upd a (\<lambda>n. n\<lparr>color := c\<rparr>) st"

definition alloc :: "state \<Rightarrow> IntervalNode \<Rightarrow> state \<times> ref" where
  "alloc st nd = (st\<lparr>heap := (heap st)(next_ref st := nd), next_ref := Suc (next_ref st)\<rparr>,
                  next_ref st)"

subsection \<open>Navigation methods of \<open>IntervalNode\<close>\<close>

definition grandparent :: "state \<Rightarrow> ref \<Rightarrow> ref option" where
  "grandparent st n =
     (case parent (heap st n) of None \<Rightarrow> None | Some p \<Rightarrow> parent (heap st p))"

definition sibling :: "state \<Rightarrow> ref \<Rightarrow> ref option" where
  "sibling st n =
     (case parent (heap st n) of
        None \<Rightarrow> None
      | Some p \<Rightarrow> if left (heap st p) = Some n then right (heap st p) else left (heap st p))"

definition uncle :: "state \<Rightarrow> ref \<Rightarrow> ref option" where
  "uncle st n = (case parent (heap st n) of None \<Rightarrow> None | Some p \<Rightarrow> sibling st p)"

section \<open>The tree\<close>

text \<open>\<open>RedBlackIntervalTree.__init__\<close>, run on an empty store.\<close>

definition RedBlackIntervalTree_init :: "error + state" where
  "RedBlackIntervalTree_init =
     (case IntervalNode_init (PyDatetime datetime_min)
             (PyDatetime (datetime_min + timedelta_days 1)) PyNone of
        Inl err \<Rightarrow> Inl err
      | Inr nd \<Rightarrow>
          Inr \<lparr>heap = (\<lambda>_. nd\<lparr>color := BLACK\<rparr>), next_ref = 1, NIL_LEAF = 0, root = 0\<rparr>)"

subsection \<open>Augmentation\<close>

definition child_max_end :: "state \<Rightarrow> ref option \<Rightarrow> datetime" where
  "child_max_end st c =
     (case c of
        None \<Rightarrow> datetime_min
      | Some l \<Rightarrow> if l \<noteq> NIL_LEAF st then max_end (heap st l) else datetime_min)"

definition update_max_end :: "state \<Rightarrow> ref \<Rightarrow> state" where
  "update_max_end st node =
     (if node = NIL_LEAF st then st
      else upd node (\<lambda>n. n\<lparr>max_end :=
             max (endt n) (max (child_max_end st (left n)) (child_max_end st (right n)))\<rparr>) st)"

partial_function (option) update_max_end_up_to_root :: "state \<Rightarrow> ref option \<Rightarrow> state option" where
  "update_max_end_up_to_root st current =
     (case current of
        None \<Rightarrow> Some st
      | Some c \<Rightarrow>
          if c = NIL_LEAF st then Some st
          else (let st' = update_max_end st c
                in update_max_end_up_to_root st' (parent (heap st' c))))"

subsection \<open>Rotations\<close>

definition left_rotate :: "state \<Rightarrow> ref \<Rightarrow> state" where
  "left_rotate st node =
     (case right (heap st node) of
        None \<Rightarrow> st
      | Some right_child \<Rightarrow>
          if right_child = NIL_LEAF st then st
          else
            let st1 = upd node (\<lambda>n. n\<lparr>right := left (heap st right_child)\<rparr>) st;
                st2 = (case left (heap st1 right_child) of
                         None \<Rightarrow> st1
                       | Some rl \<Rightarrow> if rl \<noteq> NIL_LEAF st1
                                   then upd rl (\<lambda>n. n\<lparr>parent := Some node\<rparr>) st1 else st1);
                st3 = upd right_child (\<lambda>n. n\<lparr>parent := parent (heap st2 node)\<rparr>) st2;
                st4 = (case parent (heap st3 node) of
                         None \<Rightarrow> st3\<lparr>root := right_child\<rparr>
                       | Some p \<Rightarrow>
                           if left (heap st3 p) = Some node
                           then upd p (\<lambda>n. n\<lparr>left := Some right_child\<rparr>) st3
                           else upd p (\<lambda>n. n\<lparr>right := Some right_child\<rparr>) st3);
                st5 = upd right_child (\<lambda>n. n\<lparr>left := Some node\<rparr>) st4;
                st6 = upd node (\<lambda>n. n\<lparr>parent := Some right_child\<rparr>) st5;
                st7 = update_max_end st6 node
            in update_max_end st7 right_child)"

definition right_rotate :: "state \<Rightarrow> ref \<Rightarrow> state" where
  "right_rotate st node =
     (case left (heap st node) of
        None \<Rightarrow> st
      | Some left_child \<Rightarrow>
          if left_child = NIL_LEAF st then st
          else
            let st1 = upd node (\<lambda>n. n\<lparr>left := right (heap st left_child)\<rparr>) st;
                st2 = (case right (heap st1 left_child) of
                         None \<Rightarrow> st1
                       | Some lr \<Rightarrow> if lr \<noteq> NIL_LEAF st1
                                   then upd lr (\<lambda>n. n\<lparr>parent := Some node\<rparr>) st1 else st1);
                st3 = upd left_child (\<lambda>n. n\<lparr>parent := parent (heap st2 node)\<rparr>) st2;
                st4 = (case parent (heap st3 node) of
                         None \<Rightarrow> st3\<lparr>root := left_child\<rparr>
                       | Some p \<Rightarrow>
                           if right (heap st3 p) = Some node
                           then upd p (\<lambda>n. n\<lparr>right := Some left_child\<rparr>) st3
                           else upd p (\<lambda>n. n\<lparr>left := Some left_child\<rparr>) st3);
                st5 = upd left_child (\<lambda>n. n\<lparr>right := Some node\<rparr>) st4;
                st6 = upd node (\<lambda>n. n\<lparr>parent := Some left_child\<rparr>) st5;
                st7 = update_max_end st6 node
            in update_max_end st7 left_child)"

subsection \<open>Insertion\<close>

text \<open>One pass of a \<open>while\<close> loop either leaves the loop or goes on with a new node.\<close>

datatype step = Exit state ref | Next state ref

definition is_red :: "state \<Rightarrow> ref option \<Rightarrow> bool" where
  "is_red st r = (case r of None \<Rightarrow> False | Some u \<Rightarrow> color (heap st u) = RED)"

text \<open>Case 1 of \<open>_insert_fixup\<close> (the uncle is RED), the same on both sides.\<close>

definition insert_fixup_case1 :: "state \<Rightarrow> ref \<Rightarrow> ref \<Rightarrow> ref option \<Rightarrow> ref option \<Rightarrow> step" where
  "insert_fixup_case1 st new_node p gp un =
     (let st1 = set_color p BLACK st;
          st2 = (case un of None \<Rightarrow> st1 | Some u \<Rightarrow> set_color u BLACK st1)
      in case gp of
           Some g \<Rightarrow> Next (set_color g RED st2) g
         | None \<Rightarrow> Exit st2 new_node)"

text \<open>The branch \<open>new_node.parent == grandparent.left\<close>, with grandparent \<open>g\<close>.\<close>

definition insert_fixup_left :: "state \<Rightarrow> ref \<Rightarrow> ref \<Rightarrow> ref \<Rightarrow> step" where
  "insert_fixup_left st new_node p g =
     (let un = uncle st new_node
      in if is_red st un then insert_fixup_case1 st new_node p (Some g) un
         else
           (let (st1, n1) = (if right (heap st p) = Some new_node
                             then (left_rotate st p, p) else (st, new_node));
                st2 = (case parent (heap st1 n1) of
                         None \<Rightarrow> st1
                       | Some p1 \<Rightarrow> set_color p1 BLACK st1);
                st3 = set_color g RED st2
            in Next (right_rotate st3 g) n1))"

text \<open>The \<open>else\<close> branch, where the grandparent may be \<open>None\<close>.\<close>

definition insert_fixup_right :: "state \<Rightarrow> ref \<Rightarrow> ref \<Rightarrow> ref option \<Rightarrow> step" where
  "insert_fixup_right st new_node p gp =
     (let un = uncle st new_node
      in if is_red st un then insert_fixup_case1 st new_node p gp un
         else
           (let (st1, n1) = (if left (heap st p) = Some new_node
                             then (right_rotate st p, p) else (st, new_node));
                st2 = (case parent (heap st1 n1) of
                         None \<Rightarrow> st1
                       | Some p1 \<Rightarrow> set_color p1 BLACK st1);
                st3 = (case gp of
                         None \<Rightarrow> st2
                       | Some g \<Rightarrow> left_rotate (set_color g RED st2) g)
            in Next st3 n1))"

text \<open>The body of the loop of \<open>_insert_fixup\<close>, for a node whose parent \<open>p\<close> is RED.\<close>

definition insert_fixup_body :: "state \<Rightarrow> ref \<Rightarrow> ref \<Rightarrow> step" where
  "insert_fixup_body st new_node p =
     (case grandparent st new_node of
        None \<Rightarrow> insert_fixup_right st new_node p None
      | Some g \<Rightarrow>
          if left (heap st g) = Some p then insert_fixup_left st new_node p g
          else insert_fixup_right st new_node p (Some g))"

partial_function (option) insert_fixup_loop :: "state \<Rightarrow> ref \<Rightarrow> state option" where
  "insert_fixup_loop st new_node =
     (case parent (heap st new_node) of
        None \<Rightarrow> Some st
      | Some p \<Rightarrow>
          if color (heap st p) \<noteq> RED then Some st
          else (case insert_fixup_body st new_node p of
                  Exit st' n' \<Rightarrow> Some st'
                | Next st' n' \<Rightarrow> insert_fixup_loop st' n'))"

definition insert_fixup :: "state \<Rightarrow> ref \<Rightarrow> state option" where
  "insert_fixup st new_node =
     (case insert_fixup_loop st new_node of
        None \<Rightarrow> None
      | Some st' \<Rightarrow> Some (set_color (root st') BLACK st'))"

partial_function (option) insert_descend ::
  "state \<Rightarrow> ref \<Rightarrow> ref option \<Rightarrow> ref option \<Rightarrow> (ref option) option" where
  "insert_descend st node current par =
     (case current of
        None \<Rightarrow> Some par
      | Some c \<Rightarrow>
          if c = NIL_LEAF st then Some par
          else if start (heap st node) < start (heap st c)
               then insert_descend st node (left (heap st c)) (Some c)
               else insert_descend st node (right (heap st c)) (Some c))"

definition insert_link :: "state \<Rightarrow> ref \<Rightarrow> ref option \<Rightarrow> state" where
  "insert_link st node par =
     (let st1 = upd node (\<lambda>n. n\<lparr>parent := par\<rparr>) st
      in case par of
           None \<Rightarrow> st1\<lparr>root := node\<rparr>
         | Some p \<Rightarrow>
             if start (heap st1 node) < start (heap st1 p)
             then upd p (\<lambda>n. n\<lparr>left := Some node\<rparr>) st1
             else upd p (\<lambda>n. n\<lparr>right := Some node\<rparr>) st1)"

definition insert :: "state \<Rightarrow> ref \<Rightarrow> state option" where
  "insert st node =
     (let st1 = upd node (\<lambda>n. n\<lparr>left := Some (NIL_LEAF st), right := Some (NIL_LEAF st),
                               color := RED\<rparr>) st
      in case insert_descend st1 node (Some (root st1)) None of
           None \<Rightarrow> None
         | Some par \<Rightarrow>
             (case update_max_end_up_to_root (insert_link st1 node par) (Some node) of
                None \<Rightarrow> None
              | Some st3 \<Rightarrow> insert_fixup st3 node))"

subsection \<open>Deletion\<close>

text \<open>\<open>x is None or x.color == BLACK\<close>.\<close>

definition black_or_none :: "state \<Rightarrow> ref option \<Rightarrow> bool" where
  "black_or_none st r = (case r of None \<Rightarrow> True | Some x \<Rightarrow> color (heap st x) = BLACK)"

text \<open>The test of Case 2: the sibling exists and neither of its children is RED.\<close>

definition both_black :: "state \<Rightarrow> ref option \<Rightarrow> bool" where
  "both_black st sib =
     (case sib of
        None \<Rightarrow> False
      | Some s \<Rightarrow> black_or_none st (left (heap st s)) \<and> black_or_none st (right (heap st s)))"

definition delete_fixup_case2 :: "state \<Rightarrow> ref \<Rightarrow> ref option \<Rightarrow> ref option \<Rightarrow> step" where
  "delete_fixup_case2 st new_node sib gp =
     (let st1 = (case sib of None \<Rightarrow> st | Some s \<Rightarrow> set_color s RED st)
      in case gp of
           Some g \<Rightarrow> Next st1 g
         | None \<Rightarrow> Exit st1 new_node)"

text \<open>The first three statements of Case 4; reading \<open>new_node.parent.color\<close> raises when the
  parent is \<open>None\<close>.\<close>

definition delete_fixup_case4 :: "state \<Rightarrow> ref \<Rightarrow> ref option \<Rightarrow> bool \<Rightarrow> error + state" where
  "delete_fixup_case4 st new_node sib far_right =
     (case parent (heap st new_node) of
        None \<Rightarrow> Inl AttributeError
      | Some p \<Rightarrow>
          (let st1 = (case sib of None \<Rightarrow> st | Some s \<Rightarrow> set_color s (color (heap st p)) st);
               st2 = set_color p BLACK st1
           in Inr (case sib of
                     None \<Rightarrow> st2
                   | Some s \<Rightarrow>
                       (case (if far_right then right (heap st2 s) else left (heap st2 s)) of
                          None \<Rightarrow> st2
                        | Some c \<Rightarrow> set_color c BLACK st2))))"

text \<open>The branch \<open>new_node == grandparent.left\<close>, with grandparent \<open>g\<close>.\<close>

definition delete_fixup_left :: "state \<Rightarrow> ref \<Rightarrow> ref \<Rightarrow> error + step" where
  "delete_fixup_left st new_node g =
     (let sib0 = sibling st new_node;
          (st1, sib1) =
            (case sib0 of
               None \<Rightarrow> (st, sib0)
             | Some s \<Rightarrow>
                 if color (heap st s) = RED
                 then (let sa = left_rotate (set_color g RED (set_color s BLACK st)) g
                       in (sa, sibling sa new_node))
                 else (st, sib0))
      in if both_black st1 sib1 then Inr (delete_fixup_case2 st1 new_node sib1 (Some g))
         else
           (let (st2, sib2) =
                  (case sib1 of
                     None \<Rightarrow> (st1, sib1)
                   | Some s \<Rightarrow>
                       if black_or_none st1 (right (heap st1 s))
                       then (let sa = (case left (heap st1 s) of
                                         None \<Rightarrow> st1
                                       | Some sl \<Rightarrow> set_color sl BLACK st1);
                                 sb = right_rotate (set_color s RED sa) s
                             in (sb, sibling sb new_node))
                       else (st1, sib1))
            in case delete_fixup_case4 st2 new_node sib2 True of
                 Inl err \<Rightarrow> Inl err
               | Inr st3 \<Rightarrow> Inr (Exit (left_rotate st3 g) new_node)))"

text \<open>The \<open>else\<close> branch, where the grandparent may be \<open>None\<close>.\<close>

definition delete_fixup_right_rest :: "state \<Rightarrow> ref \<Rightarrow> ref option \<Rightarrow> ref option \<Rightarrow> error + step" where
  "delete_fixup_right_rest st1 new_node sib1 gp =
     (if both_black st1 sib1 then Inr (delete_fixup_case2 st1 new_node sib1 gp)
      else
        (let (st2, sib2) =
               (case sib1 of
                  None \<Rightarrow> (st1, sib1)
                | Some s \<Rightarrow>
                    if black_or_none st1 (left (heap st1 s))
                    then (let sa = (case right (heap st1 s) of
                                      None \<Rightarrow> st1
                                    | Some sr \<Rightarrow> set_color sr BLACK st1);
                              sb = left_rotate (set_color s RED sa) s
                          in (sb, sibling sb new_node))
                    else (st1, sib1))
         in case delete_fixup_case4 st2 new_node sib2 False of
              Inl err \<Rightarrow> Inl err
            | Inr st3 \<Rightarrow>
                Inr (Exit (case gp of None \<Rightarrow> st3 | Some g \<Rightarrow> right_rotate st3 g) new_node)))"

definition delete_fixup_right :: "state \<Rightarrow> ref \<Rightarrow> ref option \<Rightarrow> error + step" where
  "delete_fixup_right st new_node gp =
     (let sib0 = sibling st new_node
      in case sib0 of
           None \<Rightarrow> delete_fixup_right_rest st new_node sib0 gp
         | Some s \<Rightarrow>
             if color (heap st s) = RED
             then (let sa = set_color s BLACK st
                   in case gp of
                        None \<Rightarrow> Inr (Exit sa new_node)
                      | Some g \<Rightarrow>
                          (let sb = right_rotate (set_color g RED sa) g
                           in delete_fixup_right_rest sb new_node (sibling sb new_node) gp))
             else delete_fixup_right_rest st new_node sib0 gp)"

definition delete_fixup_body :: "state \<Rightarrow> ref \<Rightarrow> error + step" where
  "delete_fixup_body st new_node =
     (case grandparent st new_node of
        None \<Rightarrow> delete_fixup_right st new_node None
      | Some g \<Rightarrow>
          if left (heap st g) = Some new_node then delete_fixup_left st new_node g
          else delete_fixup_right st new_node (Some g))"

partial_function (option) delete_fixup_loop :: "state \<Rightarrow> ref \<Rightarrow> (error + state \<times> ref) option" where
  "delete_fixup_loop st new_node =
     (case parent (heap st new_node) of
        None \<Rightarrow> Some (Inr (st, new_node))
      | Some p \<Rightarrow>
          if color (heap st new_node) \<noteq> BLACK then Some (Inr (st, new_node))
          else (case delete_fixup_body st new_node of
                  Inl err \<Rightarrow> Some (Inl err)
                | Inr stp \<Rightarrow>
                    (case stp of
                       Exit st' n' \<Rightarrow> Some (Inr (st', n'))
                     | Next st' n' \<Rightarrow> delete_fixup_loop st' n')))"

definition delete_fixup :: "state \<Rightarrow> ref \<Rightarrow> (error + state) option" where
  "delete_fixup st new_node =
     (case delete_fixup_loop st new_node of
        None \<Rightarrow> None
      | Some (Inl err) \<Rightarrow> Some (Inl err)
      | Some (Inr (st', n')) \<Rightarrow> Some (Inr (set_color n' BLACK st')))"

definition delete :: "state \<Rightarrow> ref \<Rightarrow> (error + state) option" where
  "delete st node = delete_fixup st node"

subsection \<open>Conflict query\<close>

partial_function (option) find_conflict_loop ::
  "state \<Rightarrow> ref option \<Rightarrow> datetime \<Rightarrow> datetime \<Rightarrow> (ref option) option" where
  "find_conflict_loop st current s e =
     (case current of
        None \<Rightarrow> Some None
      | Some c \<Rightarrow>
          if c = NIL_LEAF st then Some None
          else if start (heap st c) < e \<and> s < endt (heap st c) then Some (Some c)
          else if (case left (heap st c) of
                     None \<Rightarrow> False
                   | Some l \<Rightarrow> l \<noteq> NIL_LEAF st \<and> s \<le> max_end (heap st l))
               then find_conflict_loop st (left (heap st c)) s e
               else find_conflict_loop st (right (heap st c)) s e)"

text \<open>The method returns the state it was called in together with its result.\<close>

definition find_conflict :: "state \<Rightarrow> datetime \<Rightarrow> datetime \<Rightarrow> (state \<times> ref option) option" where
  "find_conflict st s e =
     (case find_conflict_loop st (Some (root st)) s e of
        None \<Rightarrow> None
      | Some r \<Rightarrow> Some (st, r))"

section \<open>Callers\<close>

text \<open>A caller builds a node from \<open>(start, end, data)\<close> and hands it to \<open>insert\<close>.\<close>

definition new_IntervalNode :: "state \<Rightarrow> pyval \<Rightarrow> pyval \<Rightarrow> pyval \<Rightarrow> error + state \<times> ref" where
  "new_IntervalNode st s e d =
     (case IntervalNode_init s e d of
        Inl err \<Rightarrow> Inl err
      | Inr nd \<Rightarrow> Inr (alloc st nd))"

definition insert_interval :: "state \<Rightarrow> datetime \<times> datetime \<Rightarrow> (error + state) option" where
  "insert_interval st iv =
     (case new_IntervalNode st (PyDatetime (fst iv)) (PyDatetime (snd iv)) PyNone of
        Inl err \<Rightarrow> Some (Inl err)
      | Inr (st1, r) \<Rightarrow> map_option Inr (insert st1 r))"

fun insert_all :: "state \<Rightarrow> (datetime \<times> datetime) list \<Rightarrow> (error + state) option" where
  "insert_all st [] = Some (Inr st)"
| "insert_all st (iv # ivs) =
     (case insert_interval st iv of
        None \<Rightarrow> None
      | Some (Inl err) \<Rightarrow> Some (Inl err)
      | Some (Inr st1) \<Rightarrow> insert_all st1 ivs)"

section \<open>Observations\<close>

text \<open>The state that \<open>RedBlackIntervalTree.__init__\<close> builds, written out.\<close>

definition NIL_node :: IntervalNode where
  "NIL_node = \<lparr>start = 0, endt = 86400000000, max_end = 86400000000, color = BLACK,
                left = None, right = None, parent = None, data = PyNone\<rparr>"

definition empty_tree :: state where
  "empty_tree = \<lparr>heap = (\<lambda>_. NIL_node), next_ref = 1, NIL_LEAF = 0, root = 0\<rparr>"

text \<open>The tree below a reference as a value: the references of the real nodes, read through
  the \<open>left\<close> and \<open>right\<close> links down to the given depth.\<close>

datatype rtree = Leaf | Node rtree ref rtree

fun tree_of :: "nat \<Rightarrow> state \<Rightarrow> ref option \<Rightarrow> rtree" where
  "tree_of 0 st r = Leaf"
| "tree_of (Suc k) st r =
     (case r of
        None \<Rightarrow> Leaf
      | Some a \<Rightarrow>
          if a = NIL_LEAF st then Leaf
          else Node (tree_of k st (left (heap st a))) a (tree_of k st (right (heap st a))))"

definition shape_of :: "state \<Rightarrow> rtree" where
  "shape_of st = tree_of (next_ref st) st (Some (root st))"

text \<open>Runs of the public operations from the empty tree.\<close>

definition run :: "(datetime \<times> datetime) list \<Rightarrow> state option" where
  "run ivs = (case insert_all empty_tree ivs of Some (Inr st) \<Rightarrow> Some st | _ \<Rightarrow> None)"

definition delete_in :: "ref \<Rightarrow> state \<Rightarrow> state option" where
  "delete_in a st = (case delete st a of Some (Inr st') \<Rightarrow> Some st' | _ \<Rightarrow> None)"

definition find_conflict_in :: "datetime \<Rightarrow> datetime \<Rightarrow> state \<Rightarrow> (ref option) option" where
  "find_conflict_in s e st = map_option snd (find_conflict st s e)"

definition interval_of :: "ref \<Rightarrow> state \<Rightarrow> datetime \<times> datetime" where
  "interval_of a st = (start (heap st a), endt (heap st a))"

definition color_of :: "ref \<Rightarrow> state \<Rightarrow> NodeColor" where
  "color_of a st = color (heap st a)"

definition root_color :: "state \<Rightarrow> NodeColor" where
  "root_color st = color (heap st (root st))"

definition nil_color :: "state \<Rightarrow> NodeColor" where
  "nil_color st = color (heap st (NIL_LEAF st))"

text \<open>Concrete states, written as the list of the nodes at the references 1, 2, ...\<close>

definition nd :: "datetime \<Rightarrow> datetime \<Rightarrow> datetime \<Rightarrow> NodeColor \<Rightarrow> ref option \<Rightarrow> ref option \<Rightarrow>
    ref option \<Rightarrow> IntervalNode" where
  "nd s e m c l r p = \<lparr>start = s, endt = e, max_end = m, color = c,
                        left = l, right = r, parent = p, data = PyNone\<rparr>"

definition heap_of :: "IntervalNode list \<Rightarrow> ref \<Rightarrow> IntervalNode" where
  "heap_of ns a = (if a < length ns then ns ! a else NIL_node)"

definition mk_state :: "ref \<Rightarrow> ref \<Rightarrow> IntervalNode list \<Rightarrow> state" where
  "mk_state r k ns = \<lparr>heap = heap_of (NIL_node # ns), next_ref = k, NIL_LEAF = 0, root = r\<rparr>"

text \<open>The check \<open>__init__\<close> is meant to make: both boundaries are \<open>datetime\<close> objects and the
  start is strictly before the end.\<close>

fun valid_interval :: "pyval \<Rightarrow> pyval \<Rightarrow> bool" where
  "valid_interval (PyDatetime a) (PyDatetime b) = (a < b)"
| "valid_interval _ _ = False"

section \<open>Well-formed trees in the store\<close>

text \<open>
  The general statements are about stores that hold a tree: an \<open>rtree\<close> of distinct
  references, none of them the sentinel, such that every node's \<open>left\<close>, \<open>right\<close> and
  \<open>parent\<close> attributes are the ones the tree prescribes, the sentinel standing for an empty
  subtree.
\<close>

fun inorder :: "rtree \<Rightarrow> ref list" where
  "inorder Leaf = []"
| "inorder (Node l a r) = inorder l @ a # inorder r"

fun rootr :: "ref \<Rightarrow> rtree \<Rightarrow> ref" where
  "rootr nil Leaf = nil"
| "rootr nil (Node l a r) = a"

fun is_tree :: "(ref \<Rightarrow> IntervalNode) \<Rightarrow> ref \<Rightarrow> ref option \<Rightarrow> rtree \<Rightarrow> bool" where
  "is_tree h nil p Leaf = True"
| "is_tree h nil p (Node l a r) =
     (a \<noteq> nil \<and> parent (h a) = p \<and> left (h a) = Some (rootr nil l) \<and>
      right (h a) = Some (rootr nil r) \<and> is_tree h nil (Some a) l \<and> is_tree h nil (Some a) r)"

text \<open>The sentinel keeps the three \<open>None\<close> links that \<open>__init__\<close> gave it, and all
  references in use are below \<open>next_ref\<close>.\<close>

definition wf_tree :: "state \<Rightarrow> rtree \<Rightarrow> bool" where
  "wf_tree st t =
     (is_tree (heap st) (NIL_LEAF st) None t \<and> root st = rootr (NIL_LEAF st) t \<and>
      distinct (inorder t) \<and>
      left (heap st (NIL_LEAF st)) = None \<and> right (heap st (NIL_LEAF st)) = None \<and>
      parent (heap st (NIL_LEAF st)) = None \<and>
      NIL_LEAF st < next_ref st \<and> list_all (\<lambda>a. a < next_ref st) (inorder t))"

subsection \<open>Positions in a tree\<close>

text \<open>A position in a tree is a list of frames, innermost first: \<open>LF a r\<close> says that the
  hole is the left subtree of \<open>a\<close>, whose right subtree is \<open>r\<close>; \<open>RF l a\<close> is the mirror
  image. \<open>plug c s\<close> puts \<open>s\<close> into the hole of \<open>c\<close>.\<close>

datatype frame = LF ref rtree | RF rtree ref

fun plug :: "frame list \<Rightarrow> rtree \<Rightarrow> rtree" where
  "plug [] s = s"
| "plug (LF a r # c) s = plug c (Node s a r)"
| "plug (RF l a # c) s = plug c (Node l a s)"



fun ctx_nodes :: "frame list \<Rightarrow> ref list" where
  "ctx_nodes [] = []"
| "ctx_nodes (LF a t # c) = a # inorder t @ ctx_nodes c"
| "ctx_nodes (RF t a # c) = a # inorder t @ ctx_nodes c"



fun ctx_root :: "frame list \<Rightarrow> ref \<Rightarrow> ref" where
  "ctx_root [] r = r"
| "ctx_root (LF a t # c) r = ctx_root c a"
| "ctx_root (RF t a # c) r = ctx_root c a"

text \<open>The value \<open>_update_max_end\<close> computes for a node with the given children.\<close>

definition rot_max :: "state \<Rightarrow> ref \<Rightarrow> ref option \<Rightarrow> ref option \<Rightarrow> datetime" where
  "rot_max st a l r = max (endt (heap st a)) (max (child_max_end st l) (child_max_end st r))"





section \<open>Evaluation\<close>

lemmas model_defs =
  IntervalNode_init_def datetime_min_def timedelta_days_def insert_interval_def
  new_IntervalNode_def alloc_def insert_def upd_def set_color_def insert_link_def
  insert_fixup_def insert_fixup_body_def insert_fixup_left_def insert_fixup_right_def
  insert_fixup_case1_def is_red_def grandparent_def sibling_def uncle_def
  update_max_end_def child_max_end_def left_rotate_def right_rotate_def find_conflict_def
  delete_def delete_fixup_def delete_fixup_body_def delete_fixup_left_def
  delete_fixup_right_def delete_fixup_right_rest_def delete_fixup_case2_def
  delete_fixup_case4_def black_or_none_def both_black_def
  insert_descend.simps update_max_end_up_to_root.simps insert_fixup_loop.simps
  find_conflict_loop.simps delete_fixup_loop.simps

lemmas run_defs =
  run_def delete_in_def find_conflict_in_def interval_of_def color_of_def root_color_def
  nil_color_def shape_of_def empty_tree_def NIL_node_def

lemma tree_of_unfold:
  "0 < k \<Longrightarrow> tree_of k st r =
     (case r of
        None \<Rightarrow> Leaf
      | Some a \<Rightarrow>
          if a = NIL_LEAF st then Leaf
          else Node (tree_of (k - 1) st (left (heap st a))) a
                 (tree_of (k - 1) st (right (heap st a))))"
  by (cases k) (simp_all split: option.split)

lemma init_empty_tree: "RedBlackIntervalTree_init = Inr empty_tree"
  by (simp add: RedBlackIntervalTree_init_def empty_tree_def NIL_node_def IntervalNode_init_def
      datetime_min_def timedelta_days_def)

subsection \<open>Evaluation on concrete states\<close>

lemma heap_of_upd: "a < length ns \<Longrightarrow> (heap_of ns)(a := v) = heap_of (ns[a := v])"
  by (auto simp: heap_of_def fun_eq_iff)

lemma heap_of_alloc: "a = length ns \<Longrightarrow> (heap_of ns)(a := v) = heap_of (ns @ [v])"
  by (auto simp: heap_of_def fun_eq_iff nth_append)

lemma heap_of_nth: "a < length ns \<Longrightarrow> heap_of ns a = ns ! a"
  by (simp add: heap_of_def)

lemma list_update_numeral: "(x # xs)[numeral k := v] = x # xs[pred_numeral k := v]"
  by (simp add: numeral_eq_Suc)

lemma NIL_nd: "NIL_node = nd 0 86400000000 86400000000 BLACK None None None"
  by (simp add: NIL_node_def nd_def)

lemma nd_sel:
  "start (nd s e m c l r p) = s" "endt (nd s e m c l r p) = e"
  "max_end (nd s e m c l r p) = m" "color (nd s e m c l r p) = c"
  "left (nd s e m c l r p) = l" "right (nd s e m c l r p) = r"
  "parent (nd s e m c l r p) = p"
  by (simp_all add: nd_def)

lemma nd_upd:
  "(nd s e m c l r p)\<lparr>max_end := m'\<rparr> = nd s e m' c l r p"
  "(nd s e m c l r p)\<lparr>color := c'\<rparr> = nd s e m c' l r p"
  "(nd s e m c l r p)\<lparr>left := l'\<rparr> = nd s e m c l' r p"
  "(nd s e m c l r p)\<lparr>right := r'\<rparr> = nd s e m c l r' p"
  "(nd s e m c l r p)\<lparr>parent := p'\<rparr> = nd s e m c l r p'"
  by (simp_all add: nd_def)

lemma nd_new:
  "\<lparr>start = s, endt = e, max_end = m, color = c, left = l, right = r, parent = p,
    data = PyNone\<rparr> = nd s e m c l r p"
  by (simp add: nd_def)

lemmas eval_simps = model_defs Let_def mk_state_def heap_of_upd heap_of_alloc heap_of_nth
  list_update_numeral NIL_nd nd_sel nd_upd nd_new

lemmas obs_simps = delete_in_def find_conflict_in_def interval_of_def color_of_def
  root_color_def nil_color_def shape_of_def tree_of_unfold

lemma empty_tree_mk: "empty_tree = mk_state 0 1 []"
  by (simp add: empty_tree_def mk_state_def heap_of_def fun_eq_iff)

text \<open>Eight inserts with increasing start times, one at a time.\<close>

lemma asc_step1:
  "insert_interval
     (mk_state 0 1
       []) (1, 2) =
   Some (Inr
     (mk_state 1 2
       [nd 1 2 2 BLACK (Some 0) (Some 0) None]))"
  by (simp add: eval_simps cong: let_weak_cong)

lemma asc_step2:
  "insert_interval
     (mk_state 1 2
       [nd 1 2 2 BLACK (Some 0) (Some 0) None]) (3, 4) =
   Some (Inr
     (mk_state 1 3
       [nd 1 2 4 BLACK (Some 0) (Some 2) None,
        nd 3 4 4 RED (Some 0) (Some 0) (Some 1)]))"
  by (simp add: eval_simps cong: let_weak_cong)

lemma asc_step3:
  "insert_interval
     (mk_state 1 3
       [nd 1 2 4 BLACK (Some 0) (Some 2) None,
        nd 3 4 4 RED (Some 0) (Some 0) (Some 1)]) (5, 6) =
   Some (Inr
     (mk_state 2 4
       [nd 1 2 2 RED (Some 0) (Some 0) (Some 2),
        nd 3 4 6 BLACK (Some 1) (Some 3) None,
        nd 5 6 6 RED (Some 0) (Some 0) (Some 2)]))"
  by (simp add: eval_simps cong: let_weak_cong)

lemma asc_step4:
  "insert_interval
     (mk_state 2 4
       [nd 1 2 2 RED (Some 0) (Some 0) (Some 2),
        nd 3 4 6 BLACK (Some 1) (Some 3) None,
        nd 5 6 6 RED (Some 0) (Some 0) (Some 2)]) (7, 8) =
   Some (Inr
     (mk_state 2 5
       [nd 1 2 2 BLACK (Some 0) (Some 0) (Some 2),
        nd 3 4 8 BLACK (Some 1) (Some 3) None,
        nd 5 6 8 BLACK (Some 0) (Some 4) (Some 2),
        nd 7 8 8 RED (Some 0) (Some 0) (Some 3)]))"
  by (simp add: eval_simps cong: let_weak_cong)

lemma asc_step5:
  "insert_interval
     (mk_state 2 5
       [nd 1 2 2 BLACK (Some 0) (Some 0) (Some 2),
        nd 3 4 8 BLACK (Some 1) (Some 3) None,
        nd 5 6 8 BLACK (Some 0) (Some 4) (Some 2),
        nd 7 8 8 RED (Some 0) (Some 0) (Some 3)]) (9, 10) =
   Some (Inr
     (mk_state 2 6
       [nd 1 2 2 BLACK (Some 0) (Some 0) (Some 2),
        nd 3 4 10 BLACK (Some 1) (Some 4) None,
        nd 5 6 6 RED (Some 0) (Some 0) (Some 4),
        nd 7 8 10 BLACK (Some 3) (Some 5) (Some 2),
        nd 9 10 10 RED (Some 0) (Some 0) (Some 4)]))"
  by (simp add: eval_simps cong: let_weak_cong)

lemma asc_step6:
  "insert_interval
     (mk_state 2 6
       [nd 1 2 2 BLACK (Some 0) (Some 0) (Some 2),
        nd 3 4 10 BLACK (Some 1) (Some 4) None,
        nd 5 6 6 RED (Some 0) (Some 0) (Some 4),
        nd 7 8 10 BLACK (Some 3) (Some 5) (Some 2),
        nd 9 10 10 RED (Some 0) (Some 0) (Some 4)]) (11, 12) =
   Some (Inr
     (mk_state 2 7
       [nd 1 2 2 BLACK (Some 0) (Some 0) (Some 2),
        nd 3 4 12 BLACK (Some 1) (Some 4) None,
        nd 5 6 6 BLACK (Some 0) (Some 0) (Some 4),
        nd 7 8 12 RED (Some 3) (Some 5) (Some 2),
        nd 9 10 12 BLACK (Some 0) (Some 6) (Some 4),
        nd 11 12 12 RED (Some 0) (Some 0) (Some 5)]))"
  by (simp add: eval_simps cong: let_weak_cong)

lemma asc_step7:
  "insert_interval
     (mk_state 2 7
       [nd 1 2 2 BLACK (Some 0) (Some 0) (Some 2),
        nd 3 4 12 BLACK (Some 1) (Some 4) None,
        nd 5 6 6 BLACK (Some 0) (Some 0) (Some 4),
        nd 7 8 12 RED (Some 3) (Some 5) (Some 2),
        nd 9 10 12 BLACK (Some 0) (Some 6) (Some 4),
        nd 11 12 12 RED (Some 0) (Some 0) (Some 5)]) (13, 14) =
   Some (Inr
     (mk_state 2 8
       [nd 1 2 2 BLACK (Some 0) (Some 0) (Some 2),
        nd 3 4 14 BLACK (Some 1) (Some 4) None,
        nd 5 6 6 BLACK (Some 0) (Some 0) (Some 4),
        nd 7 8 14 RED (Some 3) (Some 6) (Some 2),
        nd 9 10 10 RED (Some 0) (Some 0) (Some 6),
        nd 11 12 14 BLACK (Some 5) (Some 7) (Some 4),
        nd 13 14 14 RED (Some 0) (Some 0) (Some 6)]))"
  by (simp add: eval_simps cong: let_weak_cong)

lemma asc_step8:
  "insert_interval
     (mk_state 2 8
       [nd 1 2 2 BLACK (Some 0) (Some 0) (Some 2),
        nd 3 4 14 BLACK (Some 1) (Some 4) None,
        nd 5 6 6 BLACK (Some 0) (Some 0) (Some 4),
        nd 7 8 14 RED (Some 3) (Some 6) (Some 2),
        nd 9 10 10 RED (Some 0) (Some 0) (Some 6),
        nd 11 12 14 BLACK (Some 5) (Some 7) (Some 4),
        nd 13 14 14 RED (Some 0) (Some 0) (Some 6)]) (15, 16) =
   Some (Inr
     (mk_state 4 9
       [nd 1 2 2 BLACK (Some 0) (Some 0) (Some 2),
        nd 3 4 6 RED (Some 1) (Some 3) (Some 4),
        nd 5 6 6 BLACK (Some 0) (Some 0) (Some 2),
        nd 7 8 16 BLACK (Some 2) (Some 6) None,
        nd 9 10 10 BLACK (Some 0) (Some 0) (Some 6),
        nd 11 12 16 RED (Some 5) (Some 7) (Some 4),
        nd 13 14 16 BLACK (Some 0) (Some 8) (Some 6),
        nd 15 16 16 RED (Some 0) (Some 0) (Some 7)]))"
  by (simp add: eval_simps cong: let_weak_cong)

lemma asc_run5:
  "run [(1, 2), (3, 4), (5, 6), (7, 8), (9, 10)] =
   Some
     (mk_state 2 6
       [nd 1 2 2 BLACK (Some 0) (Some 0) (Some 2),
        nd 3 4 10 BLACK (Some 1) (Some 4) None,
        nd 5 6 6 RED (Some 0) (Some 0) (Some 4),
        nd 7 8 10 BLACK (Some 3) (Some 5) (Some 2),
        nd 9 10 10 RED (Some 0) (Some 0) (Some 4)])"
  unfolding run_def empty_tree_mk insert_all.simps asc_step1 asc_step2 asc_step3 asc_step4 asc_step5 option.case sum.case
  by (rule refl)

lemma asc_run8:
  "run [(1, 2), (3, 4), (5, 6), (7, 8), (9, 10), (11, 12), (13, 14), (15, 16)] =
   Some
     (mk_state 4 9
       [nd 1 2 2 BLACK (Some 0) (Some 0) (Some 2),
        nd 3 4 6 RED (Some 1) (Some 3) (Some 4),
        nd 5 6 6 BLACK (Some 0) (Some 0) (Some 2),
        nd 7 8 16 BLACK (Some 2) (Some 6) None,
        nd 9 10 10 BLACK (Some 0) (Some 0) (Some 6),
        nd 11 12 16 RED (Some 5) (Some 7) (Some 4),
        nd 13 14 16 BLACK (Some 0) (Some 8) (Some 6),
        nd 15 16 16 RED (Some 0) (Some 0) (Some 7)])"
  unfolding run_def empty_tree_mk insert_all.simps asc_step1 asc_step2 asc_step3 asc_step4 asc_step5 asc_step6 asc_step7 asc_step8 option.case sum.case
  by (rule refl)

lemma asc_delete4:
  "delete
     (mk_state 2 6
       [nd 1 2 2 BLACK (Some 0) (Some 0) (Some 2),
        nd 3 4 10 BLACK (Some 1) (Some 4) None,
        nd 5 6 6 RED (Some 0) (Some 0) (Some 4),
        nd 7 8 10 BLACK (Some 3) (Some 5) (Some 2),
        nd 9 10 10 RED (Some 0) (Some 0) (Some 4)]) 4 =
   Some (Inr
     (mk_state 2 6
       [nd 1 2 2 RED (Some 0) (Some 0) (Some 2),
        nd 3 4 10 BLACK (Some 1) (Some 4) None,
        nd 5 6 6 RED (Some 0) (Some 0) (Some 4),
        nd 7 8 10 BLACK (Some 3) (Some 5) (Some 2),
        nd 9 10 10 RED (Some 0) (Some 0) (Some 4)]))"
  by (simp add: eval_simps cong: let_weak_cong)

lemma asc_delete5:
  "delete
     (mk_state 4 9
       [nd 1 2 2 BLACK (Some 0) (Some 0) (Some 2),
        nd 3 4 6 RED (Some 1) (Some 3) (Some 4),
        nd 5 6 6 BLACK (Some 0) (Some 0) (Some 2),
        nd 7 8 16 BLACK (Some 2) (Some 6) None,
        nd 9 10 10 BLACK (Some 0) (Some 0) (Some 6),
        nd 11 12 16 RED (Some 5) (Some 7) (Some 4),
        nd 13 14 16 BLACK (Some 0) (Some 8) (Some 6),
        nd 15 16 16 RED (Some 0) (Some 0) (Some 7)]) 5 =
   Some (Inr
     (mk_state 2 9
       [nd 1 2 2 BLACK (Some 0) (Some 0) (Some 2),
        nd 3 4 16 RED (Some 1) (Some 4) None,
        nd 5 6 6 BLACK (Some 0) (Some 0) (Some 4),
        nd 7 8 16 BLACK (Some 3) (Some 6) (Some 2),
        nd 9 10 10 BLACK (Some 0) (Some 0) (Some 6),
        nd 11 12 16 BLACK (Some 5) (Some 8) (Some 4),
        nd 13 14 14 BLACK (Some 0) (Some 0) (Some 8),
        nd 15 16 16 RED (Some 7) (Some 0) (Some 6)]))"
  by (simp add: eval_simps cong: let_weak_cong)

section \<open>Deletion does not remove the node\<close>

text \<open>
  Claim C1 fails on the code. After the inserts \<open>[1,2) [3,4) [5,6) [7,8) [9,10)\<close> the node
  of \<open>[7,8)\<close> (reference 4) is not the root and has the two children \<open>[5,6)\<close> and
  \<open>[9,10)\<close>. \<open>delete\<close> on it leaves the shape of the tree as it was, the node keeps its own
  interval \<open>[7,8)\<close> (the successor's interval \<open>[9,10)\<close> has not taken its place), and the
  query for \<open>[7,8)\<close> still returns that very node. The only change is a recolouring: the leaf
  \<open>[1,2)\<close> is now RED below the BLACK root while the node of \<open>[7,8)\<close> is BLACK, so the paths
  from the root no longer carry the same number of BLACK nodes.
\<close>

theorem C1_delete_leaves_node:
  "map_option shape_of (run [(1, 2), (3, 4), (5, 6), (7, 8), (9, 10)]) =
     Some (Node (Node Leaf 1 Leaf) 2 (Node (Node Leaf 3 Leaf) 4 (Node Leaf 5 Leaf))) \<and>
   map_option shape_of (Option.bind (run [(1, 2), (3, 4), (5, 6), (7, 8), (9, 10)]) (delete_in 4)) =
     Some (Node (Node Leaf 1 Leaf) 2 (Node (Node Leaf 3 Leaf) 4 (Node Leaf 5 Leaf))) \<and>
   map_option (interval_of 4) (Option.bind (run [(1, 2), (3, 4), (5, 6), (7, 8), (9, 10)]) (delete_in 4)) = Some (7, 8) \<and>
   Option.bind (Option.bind (run [(1, 2), (3, 4), (5, 6), (7, 8), (9, 10)]) (delete_in 4)) (find_conflict_in 7 8) =
     Some (Some 4) \<and>
   map_option (color_of 1) (Option.bind (run [(1, 2), (3, 4), (5, 6), (7, 8), (9, 10)]) (delete_in 4)) = Some RED \<and>
   map_option (color_of 2) (Option.bind (run [(1, 2), (3, 4), (5, 6), (7, 8), (9, 10)]) (delete_in 4)) = Some BLACK \<and>
   map_option (color_of 4) (Option.bind (run [(1, 2), (3, 4), (5, 6), (7, 8), (9, 10)]) (delete_in 4)) = Some BLACK"
  unfolding asc_run5 delete_in_def Option.bind.simps option.map asc_delete4 option.case sum.case
  by (simp add: obs_simps eval_simps cong: let_weak_cong)

section \<open>The root after a deletion\<close>

text \<open>
  Claim C6 fails on the code. After eight inserts with increasing start times the root is the
  node of \<open>[7,8)\<close> and it is BLACK. \<open>delete\<close> on the node of \<open>[9,10)\<close> (reference 5), a node
  of the tree, ends with the node of \<open>[3,4)\<close> (reference 2) as the root, and that node is
  RED. The sentinel stays BLACK in this run.
\<close>

theorem C6_root_red_after_delete:
  "map_option root (run [(1, 2), (3, 4), (5, 6), (7, 8), (9, 10), (11, 12), (13, 14), (15, 16)]) = Some 4 \<and>
   map_option root_color (run [(1, 2), (3, 4), (5, 6), (7, 8), (9, 10), (11, 12), (13, 14), (15, 16)]) = Some BLACK \<and>
   map_option root (Option.bind (run [(1, 2), (3, 4), (5, 6), (7, 8), (9, 10), (11, 12), (13, 14), (15, 16)]) (delete_in 5)) = Some 2 \<and>
   map_option root_color (Option.bind (run [(1, 2), (3, 4), (5, 6), (7, 8), (9, 10), (11, 12), (13, 14), (15, 16)]) (delete_in 5)) = Some RED \<and>
   map_option nil_color (Option.bind (run [(1, 2), (3, 4), (5, 6), (7, 8), (9, 10), (11, 12), (13, 14), (15, 16)]) (delete_in 5)) = Some BLACK"
  unfolding asc_run8 delete_in_def Option.bind.simps option.map asc_delete5 option.case sum.case
  by (simp add: obs_simps eval_simps cong: let_weak_cong)

section \<open>Construction of a node\<close>

text \<open>On two \<open>datetime\<close> objects the constructor does what its documentation says.\<close>

lemma init_on_datetimes:
  "IntervalNode_init (PyDatetime a) (PyDatetime b) d =
     (if b \<le> a then Inl ValueError
      else Inr \<lparr>start = a, endt = b, max_end = b, color = RED,
                left = None, right = None, parent = None, data = d\<rparr>)"
  by (simp add: IntervalNode_init_def)

lemma init_succeeds_iff_valid:
  "(\<exists>n. IntervalNode_init s e d = Inr n) \<longleftrightarrow> valid_interval s e"
proof (cases "py_ge s e")
  case (Inl err)
  then show ?thesis
    by (cases s; cases e) (auto simp: IntervalNode_init_def)
next
  case (Inr ge)
  then show ?thesis
    by (cases s; cases e) (auto simp: IntervalNode_init_def)
qed

text \<open>
  Claim C7 fails on the code. \<open>__init__\<close> evaluates \<open>start >= end\<close> before it tests
  \<open>isinstance(start, datetime)\<close>, so for a boundary that is not a \<open>datetime\<close> the outcome
  is whatever the comparison does. For \<open>Decimal('NaN')\<close> and \<open>Decimal(1)\<close> neither boundary
  is a \<open>datetime\<close> and \<open>start >= end\<close> does not hold, so the claim and the docstring
  (\<open>TypeError: If start or end is not a datetime object\<close>) ask for \<open>TypeError\<close>; the
  comparison raises \<open>decimal.InvalidOperation\<close> and the type check is never reached.
\<close>

theorem C7_comparison_before_type_check:
  "\<not> isinstance_datetime (PyDecimal None) \<and>
   \<not> isinstance_datetime (PyDecimal (Some 1)) \<and>
   py_ge (PyDecimal None) (PyDecimal (Some 1)) \<noteq> Inr True \<and>
   IntervalNode_init (PyDecimal None) (PyDecimal (Some 1)) PyNone = Inl InvalidOperation \<and>
   IntervalNode_init (PyDecimal None) (PyDecimal (Some 1)) PyNone \<noteq> Inl TypeError"
  by (simp add: IntervalNode_init_def)

section \<open>The conflict query on small trees\<close>

text \<open>
  Claim C5. The query uses the half-open test \<open>stored.start < end \<and> start < stored.end\<close>:
  on the tree that holds only \<open>[bs, be)\<close> it returns that node exactly when the test holds.
  So \<open>[1, 5)\<close> against \<open>[5, 9)\<close> is no conflict, \<open>[1, 5)\<close> against \<open>[4, 9)\<close> is a conflict, and
  the empty tree never reports one.
\<close>

theorem C5_half_open_overlap:
  "Option.bind (run [(bs, be)]) (find_conflict_in s e) =
     (if bs < be then Some (if bs < e \<and> s < be then Some 1 else None) else None) \<and>
   Option.bind (run [(5, 9)]) (find_conflict_in 1 5) = Some None \<and>
   Option.bind (run [(4, 9)]) (find_conflict_in 1 5) = Some (Some 1) \<and>
   Option.bind (run []) (find_conflict_in s e) = Some None"
  by (simp add: model_defs run_defs Let_def cong: let_weak_cong)

section \<open>The conflict query misses a stored interval\<close>

text \<open>
  Claim C2 fails on the code. After inserting \<open>[8, 9)\<close>, \<open>[1, 10)\<close> and \<open>[10, 20)\<close> the
  tree has \<open>[8, 9)\<close> at the root, \<open>[1, 10)\<close> on its left and \<open>[10, 20)\<close> on its right. The
  query for \<open>[10, 20)\<close> goes left, because the left child's \<open>max_end\<close> equals the query's
  start, and ends there with no conflict, although \<open>[10, 20)\<close> itself is stored.
\<close>

theorem C2_own_bounds_missed:
  "map_option shape_of (run [(8, 9), (1, 10), (10, 20)]) =
     Some (Node (Node Leaf 2 Leaf) 1 (Node Leaf 3 Leaf)) \<and>
   map_option (interval_of 3) (run [(8, 9), (1, 10), (10, 20)]) = Some (10, 20) \<and>
   Option.bind (run [(8, 9), (1, 10), (10, 20)]) (find_conflict_in 10 20) = Some None"
  by (simp add: model_defs run_defs tree_of_unfold Let_def cong: let_weak_cong)

section \<open>The conflict query is a pure read\<close>

lemma find_conflict_loop_not_nil:
  assumes "find_conflict_loop st cur s e = Some r"
  shows "r \<noteq> Some (NIL_LEAF st)"
  by (rule find_conflict_loop.raw_induct
        [where P = "\<lambda>st cur s e r. r \<noteq> Some (NIL_LEAF st)", OF _ assms])
     (auto split: option.splits if_splits)

lemma find_conflict_loop_overlap:
  assumes "find_conflict_loop st cur s e = Some r"
  shows "r = None \<or> (\<exists>a. r = Some a \<and> start (heap st a) < e \<and> s < endt (heap st a))"
  by (rule find_conflict_loop.raw_induct
        [where P = "\<lambda>st cur s e r.
           r = None \<or> (\<exists>a. r = Some a \<and> start (heap st a) < e \<and> s < endt (heap st a))",
         OF _ assms])
     (auto split: option.splits if_splits)

lemma find_conflict_loop_total:
  "is_tree (heap st) (NIL_LEAF st) p t \<Longrightarrow>
   \<exists>r. find_conflict_loop st (Some (rootr (NIL_LEAF st) t)) s e = Some r \<and>
       (r = None \<or> (\<exists>a \<in> set (inorder t). r = Some a))"
proof (induction t arbitrary: p)
  case Leaf
  show ?case by (subst find_conflict_loop.simps) simp
next
  case (Node l a r)
  from Node.prems have a: "a \<noteq> NIL_LEAF st" "left (heap st a) = Some (rootr (NIL_LEAF st) l)"
    "right (heap st a) = Some (rootr (NIL_LEAF st) r)"
    and l: "is_tree (heap st) (NIL_LEAF st) (Some a) l"
    and r: "is_tree (heap st) (NIL_LEAF st) (Some a) r" by auto
  from Node.IH(1)[OF l] obtain rl where rl:
    "find_conflict_loop st (Some (rootr (NIL_LEAF st) l)) s e = Some rl"
    "rl = None \<or> (\<exists>a \<in> set (inorder l). rl = Some a)" by blast
  from Node.IH(2)[OF r] obtain rr where rr:
    "find_conflict_loop st (Some (rootr (NIL_LEAF st) r)) s e = Some rr"
    "rr = None \<or> (\<exists>a \<in> set (inorder r). rr = Some a)" by blast
  show ?case
    apply (subst find_conflict_loop.simps)
    using a rl rr by auto
qed


lemma find_conflict_not_nil:
  "find_conflict st s e = Some (st', r) \<Longrightarrow> st' = st \<and> r \<noteq> Some (NIL_LEAF st)"
  by (auto simp: find_conflict_def split: option.splits dest: find_conflict_loop_not_nil)

lemma wf_asc5:
  "wf_tree
     (mk_state 2 6
       [nd 1 2 2 BLACK (Some 0) (Some 0) (Some 2),
        nd 3 4 10 BLACK (Some 1) (Some 4) None,
        nd 5 6 6 RED (Some 0) (Some 0) (Some 4),
        nd 7 8 10 BLACK (Some 3) (Some 5) (Some 2),
        nd 9 10 10 RED (Some 0) (Some 0) (Some 4)])
     (Node (Node Leaf 1 Leaf) 2 (Node (Node Leaf 3 Leaf) 4 (Node Leaf 5 Leaf)))"
  by (simp add: wf_tree_def mk_state_def heap_of_nth NIL_nd nd_sel)

text \<open>
  Claim C10. \<open>find_conflict\<close> assigns to no attribute: it returns in the state it was
  called in, so every field of every node and the root are as before. On a store that holds a
  tree the loop returns, and its result is \<open>None\<close> or a node of the tree, which is never the
  sentinel; the node returned overlaps the query. (On any store whatever, a result that is
  returned is not the sentinel: lemma \<open>find_conflict_not_nil\<close>.)
\<close>

theorem C10_find_conflict_pure_read:
  assumes "wf_tree st t"
  shows "\<exists>r. find_conflict st s e = Some (st, r) \<and>
           (r = None \<or> (\<exists>a. a \<in> set (inorder t) \<and> a \<noteq> NIL_LEAF st \<and> r = Some a \<and>
                              start (heap st a) < e \<and> s < endt (heap st a)))"
proof -
  from assms have t: "is_tree (heap st) (NIL_LEAF st) None t"
    and r: "root st = rootr (NIL_LEAF st) t" by (simp_all add: wf_tree_def)
  from find_conflict_loop_total[OF t, of s e] obtain r where r1:
    "find_conflict_loop st (Some (root st)) s e = Some r"
    and r2: "r = None \<or> (\<exists>a \<in> set (inorder t). r = Some a)" by (auto simp: r)
  from find_conflict_loop_not_nil[OF r1] find_conflict_loop_overlap[OF r1] r2
  have "r = None \<or> (\<exists>a. a \<in> set (inorder t) \<and> a \<noteq> NIL_LEAF st \<and> r = Some a \<and>
                              start (heap st a) < e \<and> s < endt (heap st a))" by auto
  with r1 show ?thesis by (simp add: find_conflict_def)
qed

text \<open>The theorem on the tree of five intervals built above.\<close>

theorem C10_find_conflict_pure_read_witness:
  "wf_tree
     (mk_state 2 6
       [nd 1 2 2 BLACK (Some 0) (Some 0) (Some 2),
        nd 3 4 10 BLACK (Some 1) (Some 4) None,
        nd 5 6 6 RED (Some 0) (Some 0) (Some 4),
        nd 7 8 10 BLACK (Some 3) (Some 5) (Some 2),
        nd 9 10 10 RED (Some 0) (Some 0) (Some 4)])
     (Node (Node Leaf 1 Leaf) 2 (Node (Node Leaf 3 Leaf) 4 (Node Leaf 5 Leaf))) \<and>
   (\<exists>r. find_conflict
     (mk_state 2 6
       [nd 1 2 2 BLACK (Some 0) (Some 0) (Some 2),
        nd 3 4 10 BLACK (Some 1) (Some 4) None,
        nd 5 6 6 RED (Some 0) (Some 0) (Some 4),
        nd 7 8 10 BLACK (Some 3) (Some 5) (Some 2),
        nd 9 10 10 RED (Some 0) (Some 0) (Some 4)]) 7 8 =
     Some (mk_state 2 6
       [nd 1 2 2 BLACK (Some 0) (Some 0) (Some 2),
        nd 3 4 10 BLACK (Some 1) (Some 4) None,
        nd 5 6 6 RED (Some 0) (Some 0) (Some 4),
        nd 7 8 10 BLACK (Some 3) (Some 5) (Some 2),
        nd 9 10 10 RED (Some 0) (Some 0) (Some 4)], r) \<and> r \<noteq> Some 0)"
  using C10_find_conflict_pure_read [OF wf_asc5, of 7 8] wf_asc5
  by (auto simp: mk_state_def)

section \<open>Rotations on well-formed trees\<close>



lemma set_plug: "set (inorder (plug c s)) = set (inorder s) \<union> set (ctx_nodes c)"
  by (induction c s rule: plug.induct) auto









lemma upd_simps [simp]:
  "heap (upd a f st) b = (if b = a then f (heap st a) else heap st b)"
  "root (upd a f st) = root st" "NIL_LEAF (upd a f st) = NIL_LEAF st"
  "next_ref (upd a f st) = next_ref st"
  by (simp_all add: upd_def)

lemma set_color_simps [simp]:
  "heap (set_color a c st) b = (if b = a then (heap st a)\<lparr>color := c\<rparr> else heap st b)"
  "root (set_color a c st) = root st" "NIL_LEAF (set_color a c st) = NIL_LEAF st"
  "next_ref (set_color a c st) = next_ref st"
  by (simp_all add: set_color_def)

lemma update_max_end_simps [simp]:
  "heap (update_max_end st a) b =
     (if b = a \<and> a \<noteq> NIL_LEAF st
      then (heap st a)\<lparr>max_end := rot_max st a (left (heap st a)) (right (heap st a))\<rparr>
      else heap st b)"
  "root (update_max_end st a) = root st" "NIL_LEAF (update_max_end st a) = NIL_LEAF st"
  "next_ref (update_max_end st a) = next_ref st"
  by (simp_all add: update_max_end_def rot_max_def)








lemma ctx_root_in: "c \<noteq> [] \<Longrightarrow> ctx_root c r \<in> set (ctx_nodes c)"
  by (induction c arbitrary: r rule: ctx_nodes.induct) (auto, (metis ctx_root.simps(1) list.exhaust)+)














end
